theory Spec2Isabelle
  imports Main
begin

section \<open>Exceptions\<close>

text \<open>
  The exception classes modelled are the ones that opening and identifying a file raises,
  and \<^verbatim>\<open>ValueError\<close>, which the conversion of an integer to text raises, with their place
  in Python's class hierarchy; \<open>base_class\<close> is the direct base class, below
  \<^verbatim>\<open>Exception\<close>. An exception carries its class and the text \<^verbatim>\<open>str(e)\<close>.
\<close>

datatype exc_class =
    Exception
  | OSError
  | FileNotFoundError
  | PermissionError
  | IsADirectoryError
  | UnidentifiedImageError
  | DecompressionBombError
  | ValueError
  | TypeError
  | MemoryError

fun base_class :: "exc_class \<Rightarrow> exc_class option" where
  "base_class Exception = None"
| "base_class OSError = Some Exception"
| "base_class FileNotFoundError = Some OSError"
| "base_class PermissionError = Some OSError"
| "base_class IsADirectoryError = Some OSError"
| "base_class UnidentifiedImageError = Some OSError"
| "base_class DecompressionBombError = Some Exception"
| "base_class ValueError = Some Exception"
| "base_class TypeError = Some Exception"
| "base_class MemoryError = Some Exception"

text \<open>
  \<open>subclass_within n c d\<close>: \<open>d\<close> is reached from \<open>c\<close> in at most \<open>n\<close> steps up the
  hierarchy. The hierarchy is three classes deep.
\<close>

fun subclass_within :: "nat \<Rightarrow> exc_class \<Rightarrow> exc_class \<Rightarrow> bool" where
  "subclass_within 0 c d = (c = d)"
| "subclass_within (Suc n) c d =
     (c = d \<or> (case base_class c of None \<Rightarrow> False | Some b \<Rightarrow> subclass_within n b d))"

definition issubclass :: "exc_class \<Rightarrow> exc_class \<Rightarrow> bool" where
  "issubclass c d = subclass_within 2 c d"

record py_exception =
  exc_type :: exc_class
  exc_text :: string

text \<open>Whether \<^verbatim>\<open>except d:\<close> handles the exception.\<close>

definition handles :: "exc_class \<Rightarrow> py_exception \<Rightarrow> bool" where
  "handles d e = issubclass (exc_type e) d"

text \<open>What evaluating an expression gives: the exception it raises or its value.\<close>

datatype 'a result = Raise py_exception | Return 'a

section \<open>Python values handed over by the image decoder\<close>

text \<open>
  The script \<^verbatim>\<open>Template/Assets/image_info.py\<close> reads two things from the opened image:
  \<^verbatim>\<open>img.mode\<close>, a Python \<^verbatim>\<open>str\<close>, and \<^verbatim>\<open>img.info.get("bits")\<close>, an arbitrary Python
  object. The objects modelled are \<^verbatim>\<open>None\<close>, \<^verbatim>\<open>bool\<close>, \<^verbatim>\<open>int\<close> (unbounded) and
  \<^verbatim>\<open>str\<close>, and the tuples and lists of these; the items of a tuple or list are not tuples
  or lists themselves. A Python string is the list of its code points; a \<open>char\<close> stands for
  the code point of the same number, so the strings of the model are the Python strings
  over U+0000 .. U+00FF and \<open>length\<close> is Python's \<^verbatim>\<open>len\<close>.
\<close>

datatype pyatom =
    PNone
  | PBool bool
  | PInt int
  | PStr string

datatype pyval =
    Atom pyatom
  | PTuple "pyatom list"
  | PList "pyatom list"

text \<open>Truth value testing, as \<^verbatim>\<open>if bit_depth_info:\<close> performs it.\<close>

fun truthy :: "pyval \<Rightarrow> bool" where
  "truthy (Atom PNone) = False"
| "truthy (Atom (PBool b)) = b"
| "truthy (Atom (PInt i)) = (i \<noteq> 0)"
| "truthy (Atom (PStr s)) = (s \<noteq> [])"
| "truthy (PTuple xs) = (xs \<noteq> [])"
| "truthy (PList xs) = (xs \<noteq> [])"

subsection \<open>\<^verbatim>\<open>str\<close> and \<^verbatim>\<open>repr\<close>\<close>

text \<open>
  Decimal text of an integer. \<open>digit_char\<close> is only applied to numbers below 16.
\<close>

definition digit_char :: "nat \<Rightarrow> char" where
  "digit_char d = ''0123456789abcdef'' ! d"

fun nat_str :: "nat \<Rightarrow> string" where
  "nat_str n = (if n < 10 then [digit_char n] else nat_str (n div 10) @ [digit_char (n mod 10)])"

declare nat_str.simps [simp del]

definition int_text :: "int \<Rightarrow> string" where
  "int_text i = (if i < 0 then CHR ''-'' # nat_str (nat (- i)) else nat_str (nat i))"

text \<open>
  \<^verbatim>\<open>str(i)\<close> and \<^verbatim>\<open>repr(i)\<close> of an integer: the interpreter refuses to convert an integer
  of more than 4300 decimal digits, the sign not counted, and raises \<^verbatim>\<open>ValueError\<close>
  (the default of \<^verbatim>\<open>sys.get_int_max_str_digits()\<close> since Python 3.11).
\<close>

definition max_str_digits :: nat where
  "max_str_digits = 4300"

definition digit_limit_error :: py_exception where
  "digit_limit_error =
     \<lparr>exc_type = ValueError,
      exc_text = ''Exceeds the limit (4300 digits) for integer string conversion; ''
                 @ ''use sys.set_int_max_str_digits() to increase the limit''\<rparr>"

definition int_str :: "int \<Rightarrow> string result" where
  "int_str i =
     (if max_str_digits < length (nat_str (nat \<bar>i\<bar>)) then Raise digit_limit_error
      else Return (int_text i))"

text \<open>
  \<^verbatim>\<open>repr\<close> of a string: double quotes when the text has a single quote and no double
  quote, single quotes otherwise; the quote in use and the backslash are escaped, tab,
  newline and carriage return have their letter escapes, and the code points that are not
  printable (below U+0020, U+007F .. U+00A0 and U+00AD in the range modelled) are written
  \<^verbatim>\<open>\xhh\<close>.
\<close>

definition hex_escape :: "char \<Rightarrow> string" where
  "hex_escape c =
     [CHR 0x5C, CHR ''x'', digit_char (of_char c div 16), digit_char (of_char c mod 16)]"

definition printable :: "char \<Rightarrow> bool" where
  "printable c =
     (let n = (of_char c :: nat) in 32 \<le> n \<and> \<not> (127 \<le> n \<and> n \<le> 160) \<and> n \<noteq> 173)"

definition repr_char :: "char \<Rightarrow> char \<Rightarrow> string" where
  "repr_char q c =
     (if c = q \<or> c = CHR 0x5C then [CHR 0x5C, c]
      else if c = CHR 0x09 then [CHR 0x5C, CHR ''t'']
      else if c = CHR 0x0A then [CHR 0x5C, CHR ''n'']
      else if c = CHR 0x0D then [CHR 0x5C, CHR ''r'']
      else if printable c then [c]
      else hex_escape c)"

definition str_repr :: "string \<Rightarrow> string" where
  "str_repr s =
     (let q = (if CHR 0x27 \<in> set s \<and> CHR 0x22 \<notin> set s then CHR 0x22 else CHR 0x27)
      in q # concat (map (repr_char q) s) @ [q])"

text \<open>\<^verbatim>\<open>repr\<close> and \<^verbatim>\<open>str\<close> of an item; \<^verbatim>\<open>str\<close> of a string is the string itself.\<close>

fun atom_repr :: "pyatom \<Rightarrow> string result" where
  "atom_repr PNone = Return ''None''"
| "atom_repr (PBool b) = Return (if b then ''True'' else ''False'')"
| "atom_repr (PInt i) = int_str i"
| "atom_repr (PStr s) = Return (str_repr s)"

fun atom_str :: "pyatom \<Rightarrow> string result" where
  "atom_str (PStr s) = Return s"
| "atom_str a = atom_repr a"

text \<open>
  The items of a sequence are converted from left to right; the first conversion that
  raises ends the whole.
\<close>

fun results :: "'a result list \<Rightarrow> 'a list result" where
  "results [] = Return []"
| "results (Raise e # rs) = Raise e"
| "results (Return x # rs) = map_result (\<lambda>xs. x # xs) (results rs)"

text \<open>\<^verbatim>\<open>', '.join(parts)\<close>.\<close>

fun join_comma :: "string list \<Rightarrow> string" where
  "join_comma [] = []"
| "join_comma [x] = x"
| "join_comma (x # y # ys) = x @ '', '' @ join_comma (y # ys)"

text \<open>The inside of a tuple's \<^verbatim>\<open>repr\<close>: a tuple of one item keeps a trailing comma.\<close>

fun tuple_items :: "string list \<Rightarrow> string" where
  "tuple_items [x] = x @ '',''"
| "tuple_items xs = join_comma xs"

text \<open>
  \<^verbatim>\<open>str(v)\<close>, which is also what an f-string field \<^verbatim>\<open>{v}\<close> without a format
  specification inserts. A tuple or a list shows the \<^verbatim>\<open>repr\<close> of its items.
\<close>

fun py_str :: "pyval \<Rightarrow> string result" where
  "py_str (Atom a) = atom_str a"
| "py_str (PTuple xs) =
     map_result (\<lambda>parts. ''('' @ tuple_items parts @ '')'') (results (map atom_repr xs))"
| "py_str (PList xs) =
     map_result (\<lambda>parts. ''['' @ join_comma parts @ '']'') (results (map atom_repr xs))"

text \<open>\<^verbatim>\<open>''.join(map(str, xs))\<close>.\<close>

definition join_str :: "pyatom list \<Rightarrow> string result" where
  "join_str xs = map_result concat (results (map atom_str xs))"

section \<open>The decoder: opening the image\<close>

text \<open>
  \<^verbatim>\<open>Image.open(image_path)\<close> either returns an image or raises. Of the opened image the
  script reads the attribute \<^verbatim>\<open>img.mode\<close> and the dictionary \<^verbatim>\<open>img.info\<close>.
\<close>

record image =
  img_mode :: string
  img_info :: "string \<rightharpoonup> pyval"

text \<open>\<^verbatim>\<open>d.get(key)\<close>: the value stored, \<^verbatim>\<open>None\<close> when the key is missing.\<close>

definition dict_get :: "(string \<rightharpoonup> pyval) \<Rightarrow> string \<Rightarrow> pyval" where
  "dict_get d k = (case d k of None \<Rightarrow> Atom PNone | Some v \<Rightarrow> v)"

section \<open>The script\<close>

text \<open>
  Standard output is the list of the texts printed, one entry for each call of
  \<^verbatim>\<open>print\<close>, in order. The process ends with exit status 0 when the script runs to its end,
  and with a traceback when an exception leaves the \<^verbatim>\<open>try\<close> statement unhandled.
\<close>

datatype outcome = Exit0 "string list" | Uncaught py_exception "string list"

definition image_path :: string where
  "image_path = ''title_background.png''"

text \<open>
  The text of the bit-depth line, lines 16 to 32 of the script, or the exception raised
  while the text is put together (lines 19 and 22 convert the value to text).
\<close>

definition bit_depth_line :: "string \<Rightarrow> pyval \<Rightarrow> string result" where
  "bit_depth_line mode bit_depth_info =
     (if truthy bit_depth_info then
        (case bit_depth_info of
           PTuple xs \<Rightarrow>
             if length xs = length mode
             then map_result (\<lambda>formatted_depth. ''Image Bit Depth: RGBA'' @ formatted_depth)
                    (join_str xs)
             else map_result
                    (\<lambda>s. ''Image Bit Depth: '' @ s @ '' bits per channel (or an unknown format)'')
                    (py_str bit_depth_info)
         | _ \<Rightarrow> map_result
                    (\<lambda>s. ''Image Bit Depth: '' @ s @ '' bits per channel (or an unknown format)'')
                    (py_str bit_depth_info))
      else
        Return
          (if mode = ''RGBA'' then ''Image Bit Depth: RGBA8888 (Standard)''
           else if mode = ''RGB'' then ''Image Bit Depth: RGB888 (Standard)''
           else if mode = ''L'' then ''Image Bit Depth: 8-bit Grayscale (L8)''
           else ''Image Bit Depth: Format details are not explicitly available.''))"

text \<open>
  The body of the \<^verbatim>\<open>with\<close> block: the exception that ended it, if any, and the output so
  far. Both reads come before the first \<^verbatim>\<open>print\<close>; the third line is put together after
  the first two are printed. Leaving the block closes the image and prints nothing.
\<close>

definition with_body :: "image \<Rightarrow> string list \<Rightarrow> py_exception option \<times> string list" where
  "with_body img out =
     (let mode = img_mode img;
          bit_depth_info = dict_get (img_info img) ''bits'';
          out = out @ [''File: '' @ image_path];
          out = out @ [''Pillow Mode: '' @ mode]
      in case bit_depth_line mode bit_depth_info of
           Raise e \<Rightarrow> (Some e, out)
         | Return line \<Rightarrow> (None, out @ [line]))"

text \<open>
  The body of the \<^verbatim>\<open>try\<close> statement: the exception that ended it, if any, and the output
  so far.
\<close>

definition try_body ::
  "(string \<Rightarrow> image result) \<Rightarrow> string list \<Rightarrow> py_exception option \<times> string list" where
  "try_body image_open out =
     (case image_open image_path of
        Raise e \<Rightarrow> (Some e, out)
      | Return img \<Rightarrow> with_body img out)"

text \<open>The whole script; the two \<^verbatim>\<open>except\<close> clauses are tried in order.\<close>

definition script :: "(string \<Rightarrow> image result) \<Rightarrow> outcome" where
  "script image_open =
     (case try_body image_open [] of
        (None, out) \<Rightarrow> Exit0 out
      | (Some e, out) \<Rightarrow>
          if handles FileNotFoundError e
          then Exit0 (out @ [''Error: The file '' @ [CHR 0x27] @ image_path @ [CHR 0x27]
                               @ '' was not found.''])
          else if handles Exception e
          then Exit0 (out @ [''An error occurred: '' @ exc_text e])
          else Uncaught e out)"

text \<open>The decoder that answers every \<^verbatim>\<open>Image.open\<close> with the same result.\<close>

definition decoder_giving :: "image result \<Rightarrow> string \<Rightarrow> image result" where
  "decoder_giving r path = r"

section \<open>Terms of the specification\<close>




section \<open>Properties of the parts\<close>

subsection \<open>The exception handlers\<close>

lemma issubclass_Exception: "issubclass c Exception"
  by (cases c) (simp_all add: issubclass_def numeral_2_eq_2)

lemma issubclass_FileNotFoundError: "issubclass c FileNotFoundError = (c = FileNotFoundError)"
  by (cases c) (simp_all add: issubclass_def numeral_2_eq_2)

lemma handles_Exception: "handles Exception e"
  by (simp add: handles_def issubclass_Exception)

lemma handles_FileNotFoundError:
  "handles FileNotFoundError e = (exc_type e = FileNotFoundError)"
  by (simp add: handles_def issubclass_FileNotFoundError)

subsection \<open>Decimal text and the digit limit\<close>

lemma digit_char_decimal: "n < 10 \<Longrightarrow> digit_char n = ''0123456789'' ! n"
proof -
  assume "n < 10"
  then consider "n = 0" | "n = 1" | "n = 2" | "n = 3" | "n = 4"
    | "n = 5" | "n = 6" | "n = 7" | "n = 8" | "n = 9"
    by atomize_elim arith
  then show ?thesis
    by cases (simp_all add: digit_char_def)
qed

lemma nat_str_digit: "n < 10 \<Longrightarrow> nat_str n = [''0123456789'' ! n]"
  by (simp add: nat_str.simps [of n] digit_char_decimal)


lemma int_str_digit:
  "0 \<le> i \<Longrightarrow> i \<le> 9 \<Longrightarrow> int_str i = Return [''0123456789'' ! nat i]"
proof -
  assume i: "0 \<le> i" "i \<le> 9"
  then have small: "nat i < 10" by simp
  from i have "nat \<bar>i\<bar> = nat i" by simp
  with small have "length (nat_str (nat \<bar>i\<bar>)) = 1" by (simp add: nat_str_digit)
  moreover have "int_text i = [''0123456789'' ! nat i]"
    using i small by (simp add: int_text_def nat_str_digit)
  ultimately show ?thesis by (simp add: int_str_def max_str_digits_def)
qed




lemma int_str_8: "int_str 8 = Return ''8''"
  using int_str_digit [of 8] by simp


subsection \<open>Conversions succeed exactly within the digit limit\<close>












subsection \<open>The bit-depth line\<close>

lemma bit_depth_line_falsy:
  "\<not> truthy v \<Longrightarrow>
   bit_depth_line m v =
     Return
       (if m = ''RGBA'' then ''Image Bit Depth: RGBA8888 (Standard)''
        else if m = ''RGB'' then ''Image Bit Depth: RGB888 (Standard)''
        else if m = ''L'' then ''Image Bit Depth: 8-bit Grayscale (L8)''
        else ''Image Bit Depth: Format details are not explicitly available.'')"
  by (simp add: bit_depth_line_def)

lemma bit_depth_line_tuple:
  "xs \<noteq> [] \<Longrightarrow> length xs = length m \<Longrightarrow>
   bit_depth_line m (PTuple xs) =
     map_result (\<lambda>formatted_depth. ''Image Bit Depth: RGBA'' @ formatted_depth) (join_str xs)"
  by (cases "join_str xs") (simp_all add: bit_depth_line_def)




subsection \<open>The script on each result of opening the image\<close>

lemma script_Raise:
  "image_open image_path = Raise e \<Longrightarrow>
   script image_open =
     (if exc_type e = FileNotFoundError
      then Exit0 [''Error: The file '' @ [CHR 0x27] @ image_path @ [CHR 0x27]
                    @ '' was not found.'']
      else Exit0 [''An error occurred: '' @ exc_text e])"
  by (simp add: script_def try_body_def handles_Exception handles_FileNotFoundError)

lemma script_Return:
  "image_open image_path = Return img \<Longrightarrow>
   bit_depth_line (img_mode img) (dict_get (img_info img) ''bits'') = Return line \<Longrightarrow>
   script image_open =
     Exit0 [''File: '' @ image_path, ''Pillow Mode: '' @ img_mode img, line]"
  by (simp add: script_def try_body_def with_body_def Let_def)

lemma script_Return_Raise:
  "image_open image_path = Return img \<Longrightarrow>
   bit_depth_line (img_mode img) (dict_get (img_info img) ''bits'') = Raise e \<Longrightarrow>
   script image_open =
     (if exc_type e = FileNotFoundError
      then Exit0 [''File: '' @ image_path, ''Pillow Mode: '' @ img_mode img,
                  ''Error: The file '' @ [CHR 0x27] @ image_path @ [CHR 0x27]
                    @ '' was not found.'']
      else Exit0 [''File: '' @ image_path, ''Pillow Mode: '' @ img_mode img,
                  ''An error occurred: '' @ exc_text e])"
  by (simp add: script_def try_body_def with_body_def Let_def handles_Exception
      handles_FileNotFoundError)

lemma script_decoder_giving:
  "script (decoder_giving (Return img)) =
     (case bit_depth_line (img_mode img) (dict_get (img_info img) ''bits'') of
        Return line \<Rightarrow> Exit0 [''File: '' @ image_path, ''Pillow Mode: '' @ img_mode img, line]
      | Raise e \<Rightarrow>
          if exc_type e = FileNotFoundError
          then Exit0 [''File: '' @ image_path, ''Pillow Mode: '' @ img_mode img,
                      ''Error: The file '' @ [CHR 0x27] @ image_path @ [CHR 0x27]
                        @ '' was not found.'']
          else Exit0 [''File: '' @ image_path, ''Pillow Mode: '' @ img_mode img,
                      ''An error occurred: '' @ exc_text e])"
  by (simp add: script_def try_body_def with_body_def decoder_giving_def Let_def
      handles_Exception handles_FileNotFoundError split: result.split)

section \<open>The claims\<close>

text \<open>
  C1. The claim is that a \<^verbatim>\<open>"bits"\<close> tuple of matching length is labelled with the name
  of the image's own mode, an RGB image with bits (8, 8, 8) as \<^verbatim>\<open>"RGB888"\<close>. The matched
  branch of the script writes the fixed text \<^verbatim>\<open>RGBA\<close> in front of the digits whatever the
  mode is: for that RGB image the third line is \<^verbatim>\<open>"Image Bit Depth: RGBA888"\<close>.
\<close>

theorem rgb_three_tuple_labelled_rgba:
  "script (decoder_giving (Return \<lparr>img_mode = ''RGB'',
       img_info = [''bits'' \<mapsto> PTuple [PInt 8, PInt 8, PInt 8]]\<rparr>)) =
     Exit0 [''File: title_background.png'', ''Pillow Mode: RGB'', ''Image Bit Depth: RGBA888'']
   \<and> script (decoder_giving (Return \<lparr>img_mode = ''RGB'',
       img_info = [''bits'' \<mapsto> PTuple [PInt 8, PInt 8, PInt 8]]\<rparr>)) \<noteq>
     Exit0 [''File: title_background.png'', ''Pillow Mode: RGB'', ''Image Bit Depth: RGB888'']"
  by (simp add: script_decoder_giving bit_depth_line_tuple join_str_def image_path_def
      dict_get_def int_str_8)




text \<open>
  C3. For every RGBA image whose \<^verbatim>\<open>"bits"\<close> metadata is a tuple of four one-digit
  integers, the output is the three-line report and its third line is
  \<^verbatim>\<open>"Image Bit Depth: RGBA"\<close> followed by the four digits.
\<close>

theorem rgba_four_tuple_line:
  assumes "image_open image_path = Return img"
    and "img_mode img = ''RGBA''"
    and "img_info img ''bits'' = Some (PTuple [PInt a, PInt b, PInt c, PInt d])"
    and "0 \<le> a \<and> a \<le> 9" and "0 \<le> b \<and> b \<le> 9" and "0 \<le> c \<and> c \<le> 9" and "0 \<le> d \<and> d \<le> 9"
  shows "script image_open =
           Exit0 [''File: '' @ image_path, ''Pillow Mode: RGBA'',
                  ''Image Bit Depth: RGBA''
                    @ [''0123456789'' ! nat a, ''0123456789'' ! nat b,
                       ''0123456789'' ! nat c, ''0123456789'' ! nat d]]"
proof -
  have "dict_get (img_info img) ''bits'' = PTuple [PInt a, PInt b, PInt c, PInt d]"
    using assms(3) by (simp add: dict_get_def)
  moreover have "join_str [PInt a, PInt b, PInt c, PInt d] =
      Return [''0123456789'' ! nat a, ''0123456789'' ! nat b,
              ''0123456789'' ! nat c, ''0123456789'' ! nat d]"
    using assms(4-7) by (simp add: join_str_def int_str_digit)
  then have "bit_depth_line ''RGBA'' (PTuple [PInt a, PInt b, PInt c, PInt d]) =
      Return (''Image Bit Depth: RGBA''
                @ [''0123456789'' ! nat a, ''0123456789'' ! nat b,
                   ''0123456789'' ! nat c, ''0123456789'' ! nat d])"
    by (simp add: bit_depth_line_tuple)
  ultimately show ?thesis
    using assms(1,2) script_Return [of image_open img] by simp
qed

theorem rgba_four_tuple_line_witness:
  "script (decoder_giving (Return \<lparr>img_mode = ''RGBA'',
       img_info = [''bits'' \<mapsto> PTuple [PInt 5, PInt 6, PInt 5, PInt 8]]\<rparr>)) =
     Exit0 [''File: title_background.png'', ''Pillow Mode: RGBA'', ''Image Bit Depth: RGBA5658'']"
  using rgba_four_tuple_line [of
      "decoder_giving (Return \<lparr>img_mode = ''RGBA'',
         img_info = [''bits'' \<mapsto> PTuple [PInt 5, PInt 6, PInt 5, PInt 8]]\<rparr>)"
      "\<lparr>img_mode = ''RGBA'',
         img_info = [''bits'' \<mapsto> PTuple [PInt 5, PInt 6, PInt 5, PInt 8]]\<rparr>"
      5 6 5 8]
  by (simp add: decoder_giving_def image_path_def)

text \<open>
  C4. For every image without a \<^verbatim>\<open>"bits"\<close> entry in its metadata, the output is the
  three-line report and its third line is looked up from the mode alone: RGBA, RGB and L
  have their standard texts, every other mode the text that format details are not
  available.
\<close>

theorem absent_bits_mode_lookup:
  assumes "image_open image_path = Return img"
    and "img_info img ''bits'' = None"
  shows "script image_open =
           Exit0 [''File: '' @ image_path, ''Pillow Mode: '' @ img_mode img,
                  (if img_mode img = ''RGBA'' then ''Image Bit Depth: RGBA8888 (Standard)''
                   else if img_mode img = ''RGB'' then ''Image Bit Depth: RGB888 (Standard)''
                   else if img_mode img = ''L'' then ''Image Bit Depth: 8-bit Grayscale (L8)''
                   else ''Image Bit Depth: Format details are not explicitly available.'')]"
proof -
  have "dict_get (img_info img) ''bits'' = Atom PNone"
    using assms(2) by (simp add: dict_get_def)
  then show ?thesis
    using assms(1) script_Return [of image_open img
        "if img_mode img = ''RGBA'' then ''Image Bit Depth: RGBA8888 (Standard)''
         else if img_mode img = ''RGB'' then ''Image Bit Depth: RGB888 (Standard)''
         else if img_mode img = ''L'' then ''Image Bit Depth: 8-bit Grayscale (L8)''
         else ''Image Bit Depth: Format details are not explicitly available.''"]
    by (simp add: bit_depth_line_falsy)
qed

theorem absent_bits_mode_lookup_witness:
  "script (decoder_giving (Return \<lparr>img_mode = ''RGBA'', img_info = Map.empty\<rparr>)) =
     Exit0 [''File: title_background.png'', ''Pillow Mode: RGBA'',
            ''Image Bit Depth: RGBA8888 (Standard)'']
   \<and> script (decoder_giving (Return \<lparr>img_mode = ''RGB'', img_info = Map.empty\<rparr>)) =
     Exit0 [''File: title_background.png'', ''Pillow Mode: RGB'',
            ''Image Bit Depth: RGB888 (Standard)'']
   \<and> script (decoder_giving (Return \<lparr>img_mode = ''L'', img_info = Map.empty\<rparr>)) =
     Exit0 [''File: title_background.png'', ''Pillow Mode: L'',
            ''Image Bit Depth: 8-bit Grayscale (L8)'']
   \<and> script (decoder_giving (Return \<lparr>img_mode = ''CMYK'', img_info = Map.empty\<rparr>)) =
     Exit0 [''File: title_background.png'', ''Pillow Mode: CMYK'',
            ''Image Bit Depth: Format details are not explicitly available.'']"
  using
    absent_bits_mode_lookup [of
      "decoder_giving (Return \<lparr>img_mode = ''RGBA'', img_info = Map.empty\<rparr>)"
      "\<lparr>img_mode = ''RGBA'', img_info = Map.empty\<rparr>"]
    absent_bits_mode_lookup [of
      "decoder_giving (Return \<lparr>img_mode = ''RGB'', img_info = Map.empty\<rparr>)"
      "\<lparr>img_mode = ''RGB'', img_info = Map.empty\<rparr>"]
    absent_bits_mode_lookup [of
      "decoder_giving (Return \<lparr>img_mode = ''L'', img_info = Map.empty\<rparr>)"
      "\<lparr>img_mode = ''L'', img_info = Map.empty\<rparr>"]
    absent_bits_mode_lookup [of
      "decoder_giving (Return \<lparr>img_mode = ''CMYK'', img_info = Map.empty\<rparr>)"
      "\<lparr>img_mode = ''CMYK'', img_info = Map.empty\<rparr>"]
  by (simp add: decoder_giving_def image_path_def)

text \<open>
  C5, as stated, fails: a file that exists but cannot be read is a path that does not
  resolve to a readable file, and opening it raises \<^verbatim>\<open>PermissionError\<close>, which is not a
  \<^verbatim>\<open>FileNotFoundError\<close>. The one line printed is then the generic error line, not the
  not-found line.
\<close>

theorem permission_denied_not_reported_not_found:
  "script (decoder_giving (Raise \<lparr>exc_type = PermissionError,
       exc_text = ''[Errno 13] Permission denied: '' @ [CHR 0x27] @ image_path @ [CHR 0x27]\<rparr>)) =
     Exit0 [''An error occurred: [Errno 13] Permission denied: '' @ [CHR 0x27]
              @ ''title_background.png'' @ [CHR 0x27]]
   \<and> script (decoder_giving (Raise \<lparr>exc_type = PermissionError,
       exc_text = ''[Errno 13] Permission denied: '' @ [CHR 0x27] @ image_path @ [CHR 0x27]\<rparr>)) \<noteq>
     Exit0 [''Error: The file '' @ [CHR 0x27] @ ''title_background.png'' @ [CHR 0x27]
              @ '' was not found.'']"
  by (simp add: decoder_giving_def script_Raise image_path_def)

text \<open>
  C5, amended. Whenever opening the path fails because the file is not found (the
  decoder raises \<^verbatim>\<open>FileNotFoundError\<close>), the whole output is the one line
  \<^verbatim>\<open>Error: The file '<path>' was not found.\<close> with the path of the script in it, and the
  process ends with exit status 0.
\<close>

theorem file_not_found_line:
  assumes "image_open image_path = Raise e"
    and "exc_type e = FileNotFoundError"
  shows "script image_open =
           Exit0 [''Error: The file '' @ [CHR 0x27] @ image_path @ [CHR 0x27]
                    @ '' was not found.'']"
  using assms by (simp add: script_Raise)

theorem file_not_found_line_witness:
  "script (decoder_giving (Raise \<lparr>exc_type = FileNotFoundError,
       exc_text = ''[Errno 2] No such file or directory: '' @ [CHR 0x27] @ image_path
                    @ [CHR 0x27]\<rparr>)) =
     Exit0 [''Error: The file '' @ [CHR 0x27] @ ''title_background.png'' @ [CHR 0x27]
              @ '' was not found.'']"
  using file_not_found_line [of
      "decoder_giving (Raise \<lparr>exc_type = FileNotFoundError,
         exc_text = ''[Errno 2] No such file or directory: '' @ [CHR 0x27] @ image_path
                      @ [CHR 0x27]\<rparr>)"
      "\<lparr>exc_type = FileNotFoundError,
         exc_text = ''[Errno 2] No such file or directory: '' @ [CHR 0x27] @ image_path
                      @ [CHR 0x27]\<rparr>"]
  by (simp add: decoder_giving_def image_path_def)

text \<open>
  C6. Whenever opening the image fails with an exception other than
  \<^verbatim>\<open>FileNotFoundError\<close>, the whole output is the one line \<^verbatim>\<open>An error occurred: \<close> followed
  by the text of the exception, unchanged, and the process ends with exit status 0.
\<close>

theorem other_failure_line:
  assumes "image_open image_path = Raise e"
    and "exc_type e \<noteq> FileNotFoundError"
  shows "script image_open = Exit0 [''An error occurred: '' @ exc_text e]"
  using assms by (simp add: script_Raise)

theorem other_failure_line_witness:
  "script (decoder_giving (Raise \<lparr>exc_type = UnidentifiedImageError,
       exc_text = ''cannot identify image file '' @ [CHR 0x27] @ image_path @ [CHR 0x27]\<rparr>)) =
     Exit0 [''An error occurred: cannot identify image file '' @ [CHR 0x27]
              @ ''title_background.png'' @ [CHR 0x27]]"
  using other_failure_line [of
      "decoder_giving (Raise \<lparr>exc_type = UnidentifiedImageError,
         exc_text = ''cannot identify image file '' @ [CHR 0x27] @ image_path @ [CHR 0x27]\<rparr>)"
      "\<lparr>exc_type = UnidentifiedImageError,
         exc_text = ''cannot identify image file '' @ [CHR 0x27] @ image_path @ [CHR 0x27]\<rparr>"]
  by (simp add: decoder_giving_def image_path_def)




text \<open>
  C8. Whatever opening the image does, no exception leaves the script: it ends with exit
  status 0, and a failure shows in the text printed only.
\<close>

theorem always_exits_normally: "\<exists>out. script image_open = Exit0 out"
proof (cases "image_open image_path")
  case (Raise e)
  then show ?thesis by (simp add: script_Raise)
next
  case (Return img)
  show ?thesis
  proof (cases "bit_depth_line (img_mode img) (dict_get (img_info img) ''bits'')")
    case (Raise e)
    with Return show ?thesis
      using script_Return_Raise [of image_open img e] by simp
  next
    case (Return line)
    with \<open>image_open image_path = Return img\<close> show ?thesis
      using script_Return [of image_open img line] by simp
  qed
qed

text \<open>
  C10. A \<^verbatim>\<open>"bits"\<close> entry that is present but falsy (\<^verbatim>\<open>None\<close>, \<^verbatim>\<open>False\<close>, 0, an empty
  string, tuple or list) is treated as absent: the third line is the standard-depth lookup
  on the mode, not one of the two lines of the present-metadata branch.
\<close>

theorem falsy_bits_treated_as_absent:
  assumes "image_open image_path = Return img"
    and "img_info img ''bits'' = Some v"
    and "\<not> truthy v"
  shows "script image_open =
           Exit0 [''File: '' @ image_path, ''Pillow Mode: '' @ img_mode img,
                  (if img_mode img = ''RGBA'' then ''Image Bit Depth: RGBA8888 (Standard)''
                   else if img_mode img = ''RGB'' then ''Image Bit Depth: RGB888 (Standard)''
                   else if img_mode img = ''L'' then ''Image Bit Depth: 8-bit Grayscale (L8)''
                   else ''Image Bit Depth: Format details are not explicitly available.'')]"
proof -
  have "dict_get (img_info img) ''bits'' = v"
    using assms(2) by (simp add: dict_get_def)
  then show ?thesis
    using assms(1,3) script_Return [of image_open img
        "if img_mode img = ''RGBA'' then ''Image Bit Depth: RGBA8888 (Standard)''
         else if img_mode img = ''RGB'' then ''Image Bit Depth: RGB888 (Standard)''
         else if img_mode img = ''L'' then ''Image Bit Depth: 8-bit Grayscale (L8)''
         else ''Image Bit Depth: Format details are not explicitly available.''"]
    by (simp add: bit_depth_line_falsy)
qed

theorem falsy_bits_treated_as_absent_witness:
  "script (decoder_giving (Return \<lparr>img_mode = ''RGB'', img_info = [''bits'' \<mapsto> Atom (PInt 0)]\<rparr>)) =
     Exit0 [''File: title_background.png'', ''Pillow Mode: RGB'',
            ''Image Bit Depth: RGB888 (Standard)'']
   \<and> script (decoder_giving (Return \<lparr>img_mode = ''L'', img_info = [''bits'' \<mapsto> PTuple []]\<rparr>)) =
     Exit0 [''File: title_background.png'', ''Pillow Mode: L'',
            ''Image Bit Depth: 8-bit Grayscale (L8)'']"
  using
    falsy_bits_treated_as_absent [of
      "decoder_giving (Return \<lparr>img_mode = ''RGB'', img_info = [''bits'' \<mapsto> Atom (PInt 0)]\<rparr>)"
      "\<lparr>img_mode = ''RGB'', img_info = [''bits'' \<mapsto> Atom (PInt 0)]\<rparr>" "Atom (PInt 0)"]
    falsy_bits_treated_as_absent [of
      "decoder_giving (Return \<lparr>img_mode = ''L'', img_info = [''bits'' \<mapsto> PTuple []]\<rparr>)"
      "\<lparr>img_mode = ''L'', img_info = [''bits'' \<mapsto> PTuple []]\<rparr>" "PTuple []"]
  by (simp add: decoder_giving_def image_path_def)

end
